theory Spec2Isabelle
  imports Main "HOL-Library.AList" "HOL-Library.DAList"
begin

section \<open>Python values used by the dialogs\<close>

text \<open>
  The dialogs of \<^verbatim>\<open>gui/assistant_dialogs.py\<close> are embedded as functions on explicit
  state records. A Python \<^verbatim>\<open>str\<close> is a \<^typ>\<open>string\<close>; an exception is a value of
  \<^verbatim>\<open>py_error\<close>. A method that may raise returns a \<^verbatim>\<open>result\<close>: the object after a
  normal return, or the exception together with the object as it was when the exception
  left the method (Python does not undo the assignments made before a raise).
\<close>

datatype py_error =
    ValueError
  | IndexError
  | KeyError string
  | AttributeError
  | FileNotFoundError string

datatype 'a result = Returned 'a | Raised py_error 'a

fun state_of :: "'a result \<Rightarrow> 'a" where
  "state_of (Returned s) = s"
| "state_of (Raised e s) = s"

fun and_then :: "'a result \<Rightarrow> ('a \<Rightarrow> 'a result) \<Rightarrow> 'a result" where
  "and_then (Returned s) f = f s"
| "and_then (Raised e s) f = Raised e s"

subsection \<open>\<^verbatim>\<open>str.rsplit(sep, 1)\<close>\<close>

text \<open>
  \<^verbatim>\<open>s.rfind(sep)\<close>: the highest index at which \<^verbatim>\<open>sep\<close> starts in \<^verbatim>\<open>s\<close>. The search
  runs downwards from the last position where \<^verbatim>\<open>sep\<close> still fits.
\<close>

definition starts_at :: "string \<Rightarrow> string \<Rightarrow> nat \<Rightarrow> bool" where
  "starts_at s sep i = (take (length sep) (drop i s) = sep)"

fun rfind_from :: "string \<Rightarrow> string \<Rightarrow> nat \<Rightarrow> nat option" where
  "rfind_from s sep 0 = (if starts_at s sep 0 then Some 0 else None)"
| "rfind_from s sep (Suc i) =
     (if starts_at s sep (Suc i) then Some (Suc i) else rfind_from s sep i)"

definition rfind :: "string \<Rightarrow> string \<Rightarrow> nat option" where
  "rfind s sep =
     (if length s < length sep then None else rfind_from s sep (length s - length sep))"

text \<open>
  \<^verbatim>\<open>s.rsplit(sep, 1)\<close>: an empty separator raises \<^verbatim>\<open>ValueError\<close>; otherwise the string
  is cut once, at the last occurrence of \<^verbatim>\<open>sep\<close>, and a string without the separator
  comes back whole, as the only element.
\<close>

definition rsplit1 :: "string \<Rightarrow> string \<Rightarrow> py_error + string list" where
  "rsplit1 s sep =
     (if sep = [] then Inl ValueError
      else case rfind s sep of
             None \<Rightarrow> Inr [s]
           | Some i \<Rightarrow> Inr [take i s, drop (i + length sep) s])"

text \<open>\<^verbatim>\<open>parts[0]\<close>.\<close>

definition index0 :: "'a list \<Rightarrow> py_error + 'a" where
  "index0 xs = (case xs of [] \<Rightarrow> Inl IndexError | x # _ \<Rightarrow> Inr x)"

text \<open>\<^verbatim>\<open>currentText.rsplit(hypothesis, 1)[0]\<close>.\<close>

definition rsplit1_head :: "string \<Rightarrow> string \<Rightarrow> py_error + string" where
  "rsplit1_head s sep =
     (case rsplit1 s sep of Inl e \<Rightarrow> Inl e | Inr parts \<Rightarrow> index0 parts)"

section \<open>Widgets\<close>

text \<open>
  The toolkit's widgets are modelled by the part of their state the dialogs read and
  write. A \<^verbatim>\<open>QTextEdit\<close> is its plain text and the position of its cursor:
  \<^verbatim>\<open>setPlainText\<close> replaces the text and puts the cursor at the start,
  \<^verbatim>\<open>insertPlainText\<close> inserts at the cursor and leaves the cursor behind the inserted
  text, \<^verbatim>\<open>append\<close> adds a paragraph at the end (the first paragraph of an empty
  document needs no line break before it), \<^verbatim>\<open>moveCursor(End)\<close> puts the cursor
  behind the last character.
\<close>

record text_edit =
  plain_text :: string
  cursor :: nat

definition toPlainText :: "text_edit \<Rightarrow> string" where
  "toPlainText w = plain_text w"

definition setPlainText :: "string \<Rightarrow> text_edit \<Rightarrow> text_edit" where
  "setPlainText t w = w\<lparr>plain_text := t, cursor := 0\<rparr>"

definition insertPlainText :: "string \<Rightarrow> text_edit \<Rightarrow> text_edit" where
  "insertPlainText t w =
     (let c = min (cursor w) (length (plain_text w))
      in w\<lparr>plain_text := take c (plain_text w) @ t @ drop c (plain_text w),
            cursor := c + length t\<rparr>)"

definition append_paragraph :: "string \<Rightarrow> text_edit \<Rightarrow> text_edit" where
  "append_paragraph t w =
     w\<lparr>plain_text := (if plain_text w = [] then t else plain_text w @ [CHR 0x0A] @ t)\<rparr>"

definition moveCursor_End :: "text_edit \<Rightarrow> text_edit" where
  "moveCursor_End w = w\<lparr>cursor := length (plain_text w)\<rparr>"

text \<open>
  A \<^verbatim>\<open>QComboBox\<close>: its items, the current index (\<open>-1\<close> when there is none) and the
  text it shows. Selecting an index that is not an item's leaves the box without a current
  item and with an empty text.
\<close>

record combo_box =
  combo_items :: "string list"
  combo_index :: int
  combo_text :: string

definition currentText :: "combo_box \<Rightarrow> string" where
  "currentText w = combo_text w"

definition setCurrentIndex :: "int \<Rightarrow> combo_box \<Rightarrow> combo_box" where
  "setCurrentIndex i w =
     (if 0 \<le> i \<and> i < int (length (combo_items w))
      then w\<lparr>combo_index := i, combo_text := combo_items w ! nat i\<rparr>
      else w\<lparr>combo_index := -1, combo_text := []\<rparr>)"

definition addItem :: "string \<Rightarrow> combo_box \<Rightarrow> combo_box" where
  "addItem t w =
     (if combo_items w = []
      then w\<lparr>combo_items := [t], combo_index := 0, combo_text := t\<rparr>
      else w\<lparr>combo_items := combo_items w @ [t]\<rparr>)"

fun findText_from :: "int \<Rightarrow> string \<Rightarrow> string list \<Rightarrow> int" where
  "findText_from i t [] = -1"
| "findText_from i t (x # xs) = (if x = t then i else findText_from (i + 1) t xs)"

definition findText :: "string \<Rightarrow> combo_box \<Rightarrow> int" where
  "findText t w = findText_from 0 t (combo_items w)"

definition count :: "combo_box \<Rightarrow> int" where
  "count w = int (length (combo_items w))"

text \<open>An item of the \<^verbatim>\<open>QListWidget\<close> of knowledge files: its text, and whether it is selected.\<close>

record list_item =
  item_text :: string
  item_selected :: bool

text \<open>A message box shown to the user: its kind, title and text.\<close>

datatype message =
    Information string string
  | Warning string string
  | Critical string string

section \<open>Capabilities and stored profiles\<close>

text \<open>
  The specification of a function is a Python dictionary; the dialog reads
  \<^verbatim>\<open>func['function']['name']\<close> and passes the rest on untouched.
\<close>

record function_spec =
  spec_name :: string
  spec_rest :: string

text \<open>
  \<^verbatim>\<open>FunctionConfig\<close> is a class of the assistant library, outside this file. The dialog
  uses its \<^verbatim>\<open>name\<close>, its \<^verbatim>\<open>get_full_spec()\<close> and, in the membership test
  \<^verbatim>\<open>functionConfig not in self.selected_functions\<close>, its equality with the
  specification dictionaries of that list: \<open>fc_eq c f\<close> is what \<^verbatim>\<open>c == f\<close> returns.
\<close>

record function_config =
  fc_name :: string
  get_full_spec :: function_spec
  fc_eq :: "function_spec \<Rightarrow> bool"

text \<open>
  A check box of the Tools tab: its label and the \<^verbatim>\<open>FunctionConfig\<close> its
  \<^verbatim>\<open>stateChanged\<close> signal is connected with. Whether it is checked is kept in the
  dialog's \<open>checkBox_checked\<close>, under the box's position: the category and the index
  in the category's list.
\<close>

record check_box =
  cb_text :: string
  cb_config :: function_config

datatype check_state = Unchecked | PartiallyChecked | Checked

text \<open>
  A stored profile, as \<^verbatim>\<open>AssistantConfigManager.get_config\<close> returns it. Its
  \<^verbatim>\<open>knowledge_files\<close> is a dictionary that the dialog iterates: an association list
  with distinct keys.
\<close>

record assistant_config =
  ac_name :: string
  ac_assistant_id :: string
  ac_instructions :: string
  ac_model :: string
  ac_knowledge_files :: "(string, string option) alist"
  ac_selected_functions :: "function_spec list"
  ac_knowledge_retrieval :: bool
  ac_code_interpreter :: bool
  ac_output_folder_path :: string

text \<open>The dictionary that \<^verbatim>\<open>save_configuration\<close> serialises.\<close>

record config_document =
  doc_name :: string
  doc_instructions :: string
  doc_model :: string
  doc_assistant_id :: string
  doc_knowledge_files :: "string \<rightharpoonup> string option"
  doc_selected_functions :: "function_spec list"
  doc_knowledge_retrieval :: bool
  doc_code_interpreter :: bool
  doc_output_folder_path :: string
  doc_ai_client_type :: string
  doc_assistant_type :: string

section \<open>The configuration dialog\<close>

text \<open>
  The attributes of \<^verbatim>\<open>AssistantConfigDialog\<close> and the state of its widgets.
  \<open>function_config_manager\<close> holds what \<^verbatim>\<open>get_function_configs()\<close> returns, a
  dictionary from category to the functions of that category, or \<open>None\<close> when the dialog
  was built without a manager (the constructor's default). \<open>knowledge_files_dict\<close>
  maps a path to the identifier of the uploaded file, which may be \<^verbatim>\<open>None\<close>.
  \<open>accepted\<close> records the call of \<^verbatim>\<open>accept()\<close>, \<open>messages\<close> the message boxes
  shown, oldest first.
\<close>

record dialog =
  assistant_type :: string
  function_config_manager :: "(string, function_config list) alist option"
  knowledge_files_dict :: "string \<rightharpoonup> string option"
  selected_functions :: "function_spec list"
  code_interpreter :: bool
  knowledge_retrieval :: bool
  checkBoxes :: "(string \<times> check_box list) list"
  assistant_id :: string
  default_output_folder_path :: string
  is_mic_on :: bool
  currentHypothesis :: string
  is_create :: bool
  assistant_config :: "assistant_config option"
  assistant_config_json :: "string option"
  aiClientComboBox :: combo_box
  assistantComboBox :: combo_box
  nameEdit :: string
  nameEdit_enabled :: bool
  instructionsEdit :: string
  modelComboBox :: combo_box
  createAsNewCheckBox_enabled :: bool
  outputFolderPathEdit :: string
  knowledgeFileList :: "list_item list"
  knowledgeRetrievalCheckBox :: bool
  codeInterpreterCheckBox :: bool
  checkBox_checked :: "string \<times> nat \<Rightarrow> bool"
  newInstructionsEdit :: text_edit
  messages :: "message list"
  accepted :: bool

subsection \<open>Dictation\<close>

text \<open>
  \<^verbatim>\<open>on_user_input\<close> receives a partial transcription, \<^verbatim>\<open>on_user_input_complete\<close>
  the final one. A string is true in a Python condition when it is not empty.
\<close>

definition on_user_input :: "string \<Rightarrow> dialog \<Rightarrow> dialog result" where
  "on_user_input text self =
     (if currentHypothesis self \<noteq> [] then
        (let currentText = toPlainText (newInstructionsEdit self)
         in case rsplit1_head currentText (currentHypothesis self) of
              Inl e \<Rightarrow> Raised e self
            | Inr before \<Rightarrow>
                Returned (self\<lparr>newInstructionsEdit :=
                                   setPlainText (before @ text) (newInstructionsEdit self),
                                currentHypothesis := text\<rparr>))
      else
        Returned (self\<lparr>newInstructionsEdit :=
                           insertPlainText text (newInstructionsEdit self),
                        currentHypothesis := text\<rparr>))"

definition on_user_input_complete :: "string \<Rightarrow> dialog \<Rightarrow> dialog result" where
  "on_user_input_complete text self =
     (if currentHypothesis self \<noteq> [] then
        (let currentText = toPlainText (newInstructionsEdit self)
         in case rsplit1_head currentText (currentHypothesis self) of
              Inl e \<Rightarrow> Raised e self
            | Inr before \<Rightarrow>
                Returned (self\<lparr>newInstructionsEdit :=
                                   moveCursor_End
                                     (setPlainText (before @ text @ [CHR 0x0A])
                                        (newInstructionsEdit self)),
                                currentHypothesis := []\<rparr>))
      else
        Returned (self\<lparr>newInstructionsEdit :=
                           moveCursor_End (append_paragraph text (newInstructionsEdit self)),
                        currentHypothesis := []\<rparr>))"

subsection \<open>Selecting capabilities\<close>

text \<open>
  \<^verbatim>\<open>handle_function_selection\<close> is the slot of every function check box. Python's
  \<^verbatim>\<open>x not in xs\<close> compares \<^verbatim>\<open>x\<close> with each element of the list.
\<close>

definition handle_function_selection ::
    "check_state \<Rightarrow> function_config \<Rightarrow> dialog \<Rightarrow> dialog" where
  "handle_function_selection state functionConfig self =
     (if state = Checked then
        (if \<not> list_ex (fc_eq functionConfig) (selected_functions self)
         then self\<lparr>selected_functions :=
                     selected_functions self @ [get_full_spec functionConfig]\<rparr>
         else self)
      else if state = Unchecked then
        self\<lparr>selected_functions :=
               filter (\<lambda>f. spec_name f \<noteq> fc_name functionConfig) (selected_functions self)\<rparr>
      else self)"

text \<open>
  \<^verbatim>\<open>checkBox.setChecked(b)\<close> on the function check box at position \<open>pos\<close>: a box
  that changes its state emits \<^verbatim>\<open>stateChanged\<close>, which runs the slot with the new
  state; a box that is already in that state emits nothing.
\<close>

definition checkBox_setChecked ::
    "string \<times> nat \<Rightarrow> check_box \<Rightarrow> bool \<Rightarrow> dialog \<Rightarrow> dialog" where
  "checkBox_setChecked pos checkBox b self =
     (if checkBox_checked self pos = b then self
      else handle_function_selection (if b then Checked else Unchecked) (cb_config checkBox)
             (self\<lparr>checkBox_checked := (checkBox_checked self)(pos := b)\<rparr>))"

text \<open>
  \<^verbatim>\<open>create_function_section\<close> makes one unchecked box for every function of a category
  and stores the list under the category; \<^verbatim>\<open>create_tools_tab\<close> does so for every
  category, when the dialog has a manager.
\<close>

definition create_function_section ::
    "string \<Rightarrow> function_config list \<Rightarrow> dialog \<Rightarrow> dialog" where
  "create_function_section function_type funcs self =
     self\<lparr>checkBoxes :=
            AList.update function_type
              (map (\<lambda>func_config. \<lparr>cb_text = fc_name func_config, cb_config = func_config\<rparr>)
                 funcs)
              (checkBoxes self),
          checkBox_checked :=
            (\<lambda>pos. if fst pos = function_type then False else checkBox_checked self pos)\<rparr>"

fun create_function_sections ::
    "(string \<times> function_config list) list \<Rightarrow> dialog \<Rightarrow> dialog" where
  "create_function_sections [] self = self"
| "create_function_sections ((function_type, funcs) # rest) self =
     create_function_sections rest (create_function_section function_type funcs self)"

definition create_tools_tab :: "dialog \<Rightarrow> dialog" where
  "create_tools_tab self =
     (case function_config_manager self of
        None \<Rightarrow> self
      | Some function_configs \<Rightarrow> create_function_sections (DAList.impl_of function_configs) self)"

text \<open>
  The dialog as \<^verbatim>\<open>__init__\<close> builds it from the assistant type, the manager and the
  default output folder: the attributes of \<^verbatim>\<open>init_variables\<close> and
  \<^verbatim>\<open>init_speech_input\<close> and the new widgets of \<^verbatim>\<open>init_ui\<close>. The combo boxes are
  empty here; the services that fill them are outside this file.
\<close>

definition AssistantConfigDialog ::
    "string \<Rightarrow> (string, function_config list) alist option \<Rightarrow> string \<Rightarrow> dialog" where
  "AssistantConfigDialog type manager output_folder =
     create_tools_tab
       \<lparr>assistant_type = type,
        function_config_manager = manager,
        knowledge_files_dict = Map.empty,
        selected_functions = [],
        code_interpreter = False,
        knowledge_retrieval = False,
        checkBoxes = [],
        assistant_id = [],
        default_output_folder_path = output_folder,
        is_mic_on = False,
        currentHypothesis = [],
        is_create = True,
        assistant_config = None,
        assistant_config_json = None,
        aiClientComboBox = \<lparr>combo_items = [], combo_index = -1, combo_text = []\<rparr>,
        assistantComboBox = \<lparr>combo_items = [], combo_index = -1, combo_text = []\<rparr>,
        nameEdit = [],
        nameEdit_enabled = True,
        instructionsEdit = [],
        modelComboBox = \<lparr>combo_items = [], combo_index = -1, combo_text = []\<rparr>,
        createAsNewCheckBox_enabled = True,
        outputFolderPathEdit = output_folder,
        knowledgeFileList = [],
        knowledgeRetrievalCheckBox = False,
        codeInterpreterCheckBox = False,
        checkBox_checked = (\<lambda>pos. False),
        newInstructionsEdit =
          \<lparr>plain_text = ''1. Write Your Instructions Here'', cursor = 0\<rparr>,
        messages = [],
        accepted = False\<rparr>"

subsection \<open>Resetting the form and loading a stored profile\<close>

text \<open>The two loops of \<^verbatim>\<open>reset_fields\<close> over the check boxes of every category.\<close>

fun uncheck_boxes :: "string \<Rightarrow> nat \<Rightarrow> check_box list \<Rightarrow> dialog \<Rightarrow> dialog" where
  "uncheck_boxes function_type i [] self = self"
| "uncheck_boxes function_type i (checkBox # rest) self =
     uncheck_boxes function_type (Suc i) rest
       (checkBox_setChecked (function_type, i) checkBox False self)"

fun uncheck_sections :: "(string \<times> check_box list) list \<Rightarrow> dialog \<Rightarrow> dialog" where
  "uncheck_sections [] self = self"
| "uncheck_sections ((function_type, boxes) # rest) self =
     uncheck_sections rest (uncheck_boxes function_type 0 boxes self)"

text \<open>
  The slots of the two other check boxes store the new state in an attribute; as above,
  only a box that changes emits.
\<close>

definition knowledgeRetrievalCheckBox_setChecked :: "bool \<Rightarrow> dialog \<Rightarrow> dialog" where
  "knowledgeRetrievalCheckBox_setChecked b self =
     (if knowledgeRetrievalCheckBox self = b then self
      else self\<lparr>knowledgeRetrievalCheckBox := b, knowledge_retrieval := b\<rparr>)"

definition codeInterpreterCheckBox_setChecked :: "bool \<Rightarrow> dialog \<Rightarrow> dialog" where
  "codeInterpreterCheckBox_setChecked b self =
     (if codeInterpreterCheckBox self = b then self
      else self\<lparr>codeInterpreterCheckBox := b, code_interpreter := b\<rparr>)"

definition reset_fields :: "dialog \<Rightarrow> dialog" where
  "reset_fields self =
     (let s1 = self\<lparr>nameEdit := [],
                    instructionsEdit := [],
                    modelComboBox := setCurrentIndex 0 (modelComboBox self),
                    knowledge_files_dict := Map.empty,
                    knowledgeFileList := []\<rparr>;
          s2 = uncheck_sections (checkBoxes s1) s1;
          s3 = s2\<lparr>selected_functions := [],
                  knowledge_retrieval := False,
                  code_interpreter := False\<rparr>;
          s4 = (if assistant_type s3 = ''assistant''
                then codeInterpreterCheckBox_setChecked False s3 else s3)
      in s4\<lparr>outputFolderPathEdit := [], assistant_config := None\<rparr>)"

text \<open>
  \<^verbatim>\<open>pre_select_functions\<close>: for every stored selection, every category that has a
  function of that name, and every check box of that category with that label, check the
  box. The innermost loop first.
\<close>

fun check_boxes_named ::
    "string \<Rightarrow> string \<Rightarrow> nat \<Rightarrow> check_box list \<Rightarrow> dialog \<Rightarrow> dialog" where
  "check_boxes_named func_name func_type i [] self = self"
| "check_boxes_named func_name func_type i (checkBox # rest) self =
     check_boxes_named func_name func_type (Suc i) rest
       (if cb_text checkBox = func_name
        then checkBox_setChecked (func_type, i) checkBox True self else self)"

text \<open>\<^verbatim>\<open>self.checkBoxes.get(func_type, [])\<close>.\<close>

definition checkBoxes_get :: "string \<Rightarrow> dialog \<Rightarrow> check_box list" where
  "checkBoxes_get func_type self =
     (case map_of (checkBoxes self) func_type of None \<Rightarrow> [] | Some boxes \<Rightarrow> boxes)"

fun check_in_categories ::
    "string \<Rightarrow> (string \<times> function_config list) list \<Rightarrow> dialog \<Rightarrow> dialog" where
  "check_in_categories func_name [] self = self"
| "check_in_categories func_name ((func_type, funcs) # rest) self =
     check_in_categories func_name rest
       (if list_ex (\<lambda>func_config. fc_name func_config = func_name) funcs
        then check_boxes_named func_name func_type 0 (checkBoxes_get func_type self) self
        else self)"

text \<open>
  The outer loop asks the manager for the function configurations once for every stored
  selection; without a manager that call raises \<^verbatim>\<open>AttributeError\<close>.
\<close>

fun pre_select_each :: "function_spec list \<Rightarrow> dialog \<Rightarrow> dialog result" where
  "pre_select_each [] self = Returned self"
| "pre_select_each (func # rest) self =
     (case function_config_manager self of
        None \<Rightarrow> Raised AttributeError self
      | Some function_configs \<Rightarrow>
          pre_select_each rest
            (check_in_categories (spec_name func) (DAList.impl_of function_configs) self))"

definition pre_select_functions :: "dialog \<Rightarrow> dialog result" where
  "pre_select_functions self =
     (case assistant_config self of
        None \<Rightarrow> Raised AttributeError self
      | Some config \<Rightarrow> pre_select_each (ac_selected_functions config) self)"

text \<open>The loop of \<^verbatim>\<open>pre_load_assistant_config\<close> over the stored knowledge files.\<close>

fun pre_fill_knowledge_files :: "(string \<times> string option) list \<Rightarrow> dialog \<Rightarrow> dialog" where
  "pre_fill_knowledge_files [] self = self"
| "pre_fill_knowledge_files ((file_path, file_id) # rest) self =
     pre_fill_knowledge_files rest
       (self\<lparr>knowledge_files_dict := (knowledge_files_dict self)(file_path \<mapsto> file_id),
             knowledgeFileList :=
               knowledgeFileList self @ [\<lparr>item_text = file_path, item_selected = False\<rparr>]\<rparr>)"

text \<open>
  \<^verbatim>\<open>pre_load_assistant_config\<close>. The profile store is outside this file:
  \<open>get_config\<close> is its lookup by name, \<open>None\<close> when it has no such profile.
\<close>

definition pre_load_assistant_config ::
    "(string \<Rightarrow> assistant_config option) \<Rightarrow> string \<Rightarrow> dialog \<Rightarrow> dialog result" where
  "pre_load_assistant_config get_config name self =
     (let s0 = self\<lparr>assistant_config := get_config name\<rparr>
      in case get_config name of
           None \<Rightarrow> Returned s0
         | Some config \<Rightarrow>
             (let s1 = s0\<lparr>nameEdit := ac_name config,
                          assistant_id := ac_assistant_id config,
                          instructionsEdit := ac_instructions config\<rparr>;
                  index = findText (ac_model config) (modelComboBox s1);
                  s2 = (if index \<ge> 0
                        then s1\<lparr>modelComboBox := setCurrentIndex index (modelComboBox s1)\<rparr>
                        else (let box = addItem (ac_model config) (modelComboBox s1)
                              in s1\<lparr>modelComboBox := setCurrentIndex (count box - 1) box\<rparr>));
                  s3 = pre_fill_knowledge_files (DAList.impl_of (ac_knowledge_files config)) s2
              in and_then (pre_select_functions s3)
                   (\<lambda>s4.
                      let s5 = s4\<lparr>knowledge_retrieval := ac_knowledge_retrieval config\<rparr>;
                          s6 = knowledgeRetrievalCheckBox_setChecked (knowledge_retrieval s5) s5;
                          s7 = s6\<lparr>code_interpreter := ac_code_interpreter config\<rparr>;
                          s8 = (if assistant_type s7 = ''assistant''
                                then codeInterpreterCheckBox_setChecked (code_interpreter s7) s7
                                else s7);
                          output_folder_path = ac_output_folder_path config
                      in Returned (if output_folder_path \<noteq> []
                                   then s8\<lparr>outputFolderPathEdit := output_folder_path\<rparr>
                                   else s8))))"

definition assistant_selection_changed ::
    "(string \<Rightarrow> assistant_config option) \<Rightarrow> dialog \<Rightarrow> dialog result" where
  "assistant_selection_changed get_config self =
     (let s1 = reset_fields self;
          selected_assistant = currentText (assistantComboBox s1)
      in if selected_assistant = ''New Assistant'' then
           Returned (s1\<lparr>is_create := True,
                        nameEdit_enabled := True,
                        createAsNewCheckBox_enabled := False,
                        outputFolderPathEdit := default_output_folder_path s1\<rparr>)
         else if selected_assistant \<noteq> [] then
           and_then (pre_load_assistant_config get_config selected_assistant
                       (s1\<lparr>is_create := False\<rparr>))
             (\<lambda>s2. Returned (s2\<lparr>createAsNewCheckBox_enabled := True,
                                 nameEdit_enabled := False\<rparr>))
         else Returned s1)"

subsection \<open>Knowledge files\<close>

definition apostrophe :: string where
  "apostrophe = [CHR 0x27]"

text \<open>\<^verbatim>\<open>add_file\<close>; \<open>filePath\<close> is what the file dialog returned, empty when cancelled.\<close>

definition add_file :: "string \<Rightarrow> dialog \<Rightarrow> dialog" where
  "add_file filePath self =
     (if filePath \<noteq> [] then
        (if knowledge_files_dict self filePath \<noteq> None then
           self\<lparr>messages := messages self @
                   [Warning ''File Already Added''
                      (''The file '' @ apostrophe @ filePath @ apostrophe @
                       '' is already in the list.'')]\<rparr>
         else
           self\<lparr>knowledge_files_dict := (knowledge_files_dict self)(filePath \<mapsto> None),
                 knowledgeFileList :=
                   knowledgeFileList self @ [\<lparr>item_text = filePath, item_selected = False\<rparr>]\<rparr>)
      else self)"

text \<open>
  \<^verbatim>\<open>remove_file\<close>: \<^verbatim>\<open>del d[k]\<close> raises \<^verbatim>\<open>KeyError\<close> when the key is missing;
  \<^verbatim>\<open>takeItem(row(item))\<close> takes that item out of the list.
\<close>

fun remove_items :: "list_item list \<Rightarrow> dialog \<Rightarrow> dialog result" where
  "remove_items [] self = Returned self"
| "remove_items (item # rest) self =
     (if knowledge_files_dict self (item_text item) \<noteq> None then
        remove_items rest
          (self\<lparr>knowledge_files_dict := (knowledge_files_dict self)(item_text item := None),
                knowledgeFileList := remove1 item (knowledgeFileList self)\<rparr>)
      else Raised (KeyError (item_text item)) self)"

definition remove_file :: "dialog \<Rightarrow> dialog result" where
  "remove_file self =
     (let selected_items = filter item_selected (knowledgeFileList self)
      in if selected_items = [] then Returned self else remove_items selected_items self)"

subsection \<open>Saving\<close>

text \<open>
  \<^verbatim>\<open>save_configuration\<close>; \<open>json_dumps\<close> stands for \<^verbatim>\<open>json.dumps(config, indent=4)\<close>.
\<close>

definition save_configuration :: "(config_document \<Rightarrow> string) \<Rightarrow> dialog \<Rightarrow> dialog" where
  "save_configuration json_dumps self =
     (let config =
            \<lparr>doc_name = nameEdit self,
             doc_instructions = instructionsEdit self,
             doc_model = currentText (modelComboBox self),
             doc_assistant_id = (if \<not> is_create self then assistant_id self else []),
             doc_knowledge_files = knowledge_files_dict self,
             doc_selected_functions = selected_functions self,
             doc_knowledge_retrieval = knowledge_retrieval self,
             doc_code_interpreter = code_interpreter self,
             doc_output_folder_path = outputFolderPathEdit self,
             doc_ai_client_type = currentText (aiClientComboBox self),
             doc_assistant_type = assistant_type self\<rparr>
      in if doc_name config = [] \<or> doc_instructions config = [] \<or> doc_model config = [] then
           self\<lparr>messages := messages self @
                   [Information ''Missing Fields''
                      ''Name, Instructions, and Model are required fields.'']\<rparr>
         else
           self\<lparr>assistant_config_json := Some (json_dumps config), accepted := True\<rparr>)"

section \<open>The export dialog\<close>












section \<open>Properties stated about the dialogs\<close>

text \<open>
  The knowledge files shown and the knowledge files held agree: the list widget has one
  entry for every key of the dictionary and no other entry.
\<close>

definition knowledge_files_shown :: "dialog \<Rightarrow> bool" where
  "knowledge_files_shown self =
     (distinct (map item_text (knowledgeFileList self)) \<and>
      set (map item_text (knowledgeFileList self)) = dom (knowledge_files_dict self))"

text \<open>
  The dialog without the two things the function check boxes change: their checked
  states and the selection sequence. Two dialogs with the same \<open>form_of\<close> differ in
  nothing else.
\<close>

definition form_of :: "dialog \<Rightarrow> dialog" where
  "form_of s = s\<lparr>checkBox_checked := (\<lambda>pos. False), selected_functions := []\<rparr>"

text \<open>Concrete values, for the instances below.\<close>

definition example_spec :: function_spec where
  "example_spec = \<lparr>spec_name = ''get_time'', spec_rest = ''{}''\<rparr>"

definition example_function :: function_config where
  "example_function =
     \<lparr>fc_name = ''get_time'', get_full_spec = example_spec, fc_eq = (\<lambda>f. False)\<rparr>"

definition example_dialog :: dialog where
  "example_dialog = AssistantConfigDialog ''assistant'' None ''output''"

text \<open>Every function check box of the Tools tab is unchecked.\<close>

definition boxes_unchecked :: "dialog \<Rightarrow> bool" where
  "boxes_unchecked self =
     list_all (\<lambda>(function_type, boxes).
                 list_all (\<lambda>i. \<not> checkBox_checked self (function_type, i)) [0..<length boxes])
       (checkBoxes self)"

text \<open>
  The body of \<^verbatim>\<open>pre_load_assistant_config\<close> for a profile that the store has, cut at
  the call of \<^verbatim>\<open>pre_select_functions\<close>: what runs before the call, and what runs after
  it has returned.
\<close>

definition pre_load_first :: "assistant_config \<Rightarrow> dialog \<Rightarrow> dialog" where
  "pre_load_first config s0 =
     (let s1 = s0\<lparr>nameEdit := ac_name config,
                  assistant_id := ac_assistant_id config,
                  instructionsEdit := ac_instructions config\<rparr>;
          index = findText (ac_model config) (modelComboBox s1);
          s2 = (if index \<ge> 0
                then s1\<lparr>modelComboBox := setCurrentIndex index (modelComboBox s1)\<rparr>
                else (let box = addItem (ac_model config) (modelComboBox s1)
                      in s1\<lparr>modelComboBox := setCurrentIndex (count box - 1) box\<rparr>))
      in pre_fill_knowledge_files (DAList.impl_of (ac_knowledge_files config)) s2)"

definition pre_load_rest :: "assistant_config \<Rightarrow> dialog \<Rightarrow> dialog" where
  "pre_load_rest config s4 =
     (let s5 = s4\<lparr>knowledge_retrieval := ac_knowledge_retrieval config\<rparr>;
          s6 = knowledgeRetrievalCheckBox_setChecked (knowledge_retrieval s5) s5;
          s7 = s6\<lparr>code_interpreter := ac_code_interpreter config\<rparr>;
          s8 = (if assistant_type s7 = ''assistant''
                then codeInterpreterCheckBox_setChecked (code_interpreter s7) s7
                else s7);
          output_folder_path = ac_output_folder_path config
      in if output_folder_path \<noteq> []
         then s8\<lparr>outputFolderPathEdit := output_folder_path\<rparr>
         else s8)"

text \<open>
  A stored profile named ``helper'', the store that holds it, and a dialog that has been
  dictated into, with ``helper'' chosen in the combo box of assistants.
\<close>

definition example_profile :: assistant_config where
  "example_profile =
     \<lparr>ac_name = ''helper'',
      ac_assistant_id = ''asst_1'',
      ac_instructions = ''Be brief.'',
      ac_model = ''gpt-4'',
      ac_knowledge_files = DAList.empty,
      ac_selected_functions = [],
      ac_knowledge_retrieval = False,
      ac_code_interpreter = False,
      ac_output_folder_path = ''output''\<rparr>"

definition example_store :: "string \<Rightarrow> assistant_config option" where
  "example_store name = (if name = ''helper'' then Some example_profile else None)"

definition dictating_dialog :: dialog where
  "dictating_dialog =
     example_dialog
       \<lparr>assistantComboBox :=
          \<lparr>combo_items = [''New Assistant'', ''helper''], combo_index = 1,
           combo_text = ''helper''\<rparr>,
        currentHypothesis := ''ab'',
        newInstructionsEdit := \<lparr>plain_text = ''ab'', cursor = 2\<rparr>\<rparr>"

text \<open>A dialog that shows one knowledge file, selected in the list.\<close>

definition one_file_dialog :: dialog where
  "one_file_dialog =
     example_dialog
       \<lparr>knowledge_files_dict := [''notes.txt'' \<mapsto> None],
        knowledgeFileList := [\<lparr>item_text = ''notes.txt'', item_selected = True\<rparr>]\<rparr>"












section \<open>Dictation\<close>

lemma rfind_from_None:
  "rfind_from s sep n = None \<longleftrightarrow> (\<forall>i\<le>n. \<not> starts_at s sep i)"
  by (induction n) (auto simp: le_Suc_eq)

lemma rfind_from_Some:
  "rfind_from s sep n = Some i \<Longrightarrow>
     i \<le> n \<and> starts_at s sep i \<and> (\<forall>j. i < j \<and> j \<le> n \<longrightarrow> \<not> starts_at s sep j)"
  by (induction n) (auto simp: le_Suc_eq split: if_splits)

lemma starts_at_append: "starts_at (p @ sep @ q) sep (length p)"
  by (simp add: starts_at_def)

lemma starts_at_split:
  "starts_at s sep i \<Longrightarrow> s = take i s @ sep @ drop (i + length sep) s"
proof -
  assume "starts_at s sep i"
  then have "take (length sep) (drop i s) = sep"
    by (simp add: starts_at_def)
  moreover have "drop i s = take (length sep) (drop i s) @ drop (length sep) (drop i s)"
    by (simp only: append_take_drop_id)
  ultimately have "drop i s = sep @ drop (i + length sep) s"
    by (simp add: add.commute)
  then show ?thesis
    by (metis append_take_drop_id)
qed

text \<open>\<open>rfind\<close> finds nothing exactly when the separator is no substring.\<close>

lemma rfind_None_iff:
  "rfind s sep = None \<longleftrightarrow> \<not> (\<exists>p q. s = p @ sep @ q)"
proof
  assume none: "rfind s sep = None"
  show "\<not> (\<exists>p q. s = p @ sep @ q)"
  proof
    assume "\<exists>p q. s = p @ sep @ q"
    then obtain p q where s: "s = p @ sep @ q" by blast
    then have le: "length p \<le> length s - length sep" and fits: "\<not> length s < length sep"
      by simp_all
    from none fits have "rfind_from s sep (length s - length sep) = None"
      by (simp add: rfind_def)
    with le have "\<not> starts_at s sep (length p)"
      by (simp add: rfind_from_None)
    with s show False
      by (simp add: starts_at_append)
  qed
next
  assume no: "\<not> (\<exists>p q. s = p @ sep @ q)"
  show "rfind s sep = None"
  proof (cases "rfind s sep")
    case None
    then show ?thesis .
  next
    case (Some i)
    then have "starts_at s sep i"
      by (auto simp: rfind_def dest: rfind_from_Some split: if_splits)
    then have "s = take i s @ sep @ drop (i + length sep) s"
      by (rule starts_at_split)
    with no show ?thesis by blast
  qed
qed


text \<open>
  With the separator in the string, \<^verbatim>\<open>rsplit(sep, 1)[0]\<close> is what stands before its last
  occurrence; what stands behind it is the second element of the list, which the dialog
  does not read.
\<close>

lemma rsplit1_head_last:
  assumes sep: "sep \<noteq> []" and s: "s = p @ sep @ q"
    and last: "\<forall>p' q'. s = p' @ sep @ q' \<longrightarrow> length p' \<le> length p"
  shows "rsplit1_head s sep = Inr p"
proof -
  from s have "rfind s sep \<noteq> None"
    by (simp only: rfind_None_iff) blast
  then obtain i where i: "rfind s sep = Some i" by blast
  then have found: "i \<le> length s - length sep \<and> starts_at s sep i \<and>
      (\<forall>j. i < j \<and> j \<le> length s - length sep \<longrightarrow> \<not> starts_at s sep j)"
    by (auto simp: rfind_def dest: rfind_from_Some split: if_splits)
  then have "s = take i s @ sep @ drop (i + length sep) s"
    by (simp add: starts_at_split)
  with last have "length (take i s) \<le> length p" by blast
  moreover from found have "i \<le> length s" by arith
  ultimately have "i \<le> length p" by simp
  moreover have "\<not> i < length p"
  proof
    assume "i < length p"
    moreover from s have "length p \<le> length s - length sep" by simp
    ultimately have "\<not> starts_at s sep (length p)" using found by blast
    with s show False by (simp add: starts_at_append)
  qed
  ultimately have "i = length p" by simp
  with i s sep show ?thesis
    by (simp add: rsplit1_head_def rsplit1_def index0_def)
qed

lemma on_user_input_cuts_at_last_occurrence:
  assumes "currentHypothesis self \<noteq> []"
    and "toPlainText (newInstructionsEdit self) = p @ currentHypothesis self @ q"
    and "\<forall>p' q'. toPlainText (newInstructionsEdit self) = p' @ currentHypothesis self @ q'
           \<longrightarrow> length p' \<le> length p"
  shows "\<exists>s. on_user_input text self = Returned s \<and>
             toPlainText (newInstructionsEdit s) = p @ text \<and> currentHypothesis s = text"
proof -
  from assms have "rsplit1_head (toPlainText (newInstructionsEdit self))
      (currentHypothesis self) = Inr p"
    by (rule rsplit1_head_last)
  with assms(1) show ?thesis
    by (simp add: on_user_input_def toPlainText_def setPlainText_def)
qed

lemmas dictation_defs =
  on_user_input_def on_user_input_complete_def insertPlainText_def toPlainText_def
  setPlainText_def append_paragraph_def moveCursor_End_def
  rsplit1_head_def rsplit1_def rfind_def starts_at_def index0_def

lemmas example_dialog_defs =
  example_dialog_def AssistantConfigDialog_def create_tools_tab_def

text \<open>
  Claim C1, for a buffer that holds text behind the pending hypothesis. The instructions
  ``Be brief.'' are in the editor with the cursor in front of them, where
  \<^verbatim>\<open>setPlainText\<close> leaves it, and no hypothesis is pending. The first partial result
  ``ab'' is inserted at the cursor, in front of the instructions. The next partial result
  ``abc'' replaces the whole buffer by ``abc'': with the hypothesis, the instructions
  behind it are gone. The claim's buffer for this input is ``abcBe brief.''.
\<close>

theorem partial_input_drops_text_behind_hypothesis:
  "on_user_input ''ab''
     (example_dialog\<lparr>newInstructionsEdit := \<lparr>plain_text = ''Be brief.'', cursor = 0\<rparr>,
                     currentHypothesis := []\<rparr>) =
   Returned (example_dialog\<lparr>newInstructionsEdit := \<lparr>plain_text = ''abBe brief.'', cursor = 2\<rparr>,
                             currentHypothesis := ''ab''\<rparr>) \<and>
   on_user_input ''abc''
     (example_dialog\<lparr>newInstructionsEdit := \<lparr>plain_text = ''abBe brief.'', cursor = 2\<rparr>,
                     currentHypothesis := ''ab''\<rparr>) =
   Returned (example_dialog\<lparr>newInstructionsEdit := \<lparr>plain_text = ''abc'', cursor = 0\<rparr>,
                             currentHypothesis := ''abc''\<rparr>)"
  by (simp add: dictation_defs)

text \<open>
  Claim C7: on an empty buffer with no pending hypothesis, the partial result ``ab''
  followed by the partial result ``abc'' leaves the buffer ``abc'' with the pending
  hypothesis ``abc''.
\<close>

theorem partial_then_partial:
  "and_then
     (on_user_input ''ab''
        (self\<lparr>newInstructionsEdit := \<lparr>plain_text = [], cursor = c\<rparr>,
              currentHypothesis := []\<rparr>))
     (on_user_input ''abc'') =
   Returned (self\<lparr>newInstructionsEdit := \<lparr>plain_text = ''abc'', cursor = 0\<rparr>,
                   currentHypothesis := ''abc''\<rparr>)"
  by (simp add: dictation_defs)

text \<open>
  Claim C8: on an empty buffer with no pending hypothesis, the partial result ``ab''
  followed by the final result ``abcd'' leaves the buffer ``abcd'' with a line break
  behind it, and no pending hypothesis.
\<close>

theorem partial_then_final:
  "and_then
     (on_user_input ''ab''
        (self\<lparr>newInstructionsEdit := \<lparr>plain_text = [], cursor = c\<rparr>,
              currentHypothesis := []\<rparr>))
     (on_user_input_complete ''abcd'') =
   Returned (self\<lparr>newInstructionsEdit := \<lparr>plain_text = ''abcd'' @ [CHR 0x0A], cursor = 5\<rparr>,
                   currentHypothesis := []\<rparr>)"
  by (simp add: dictation_defs)



section \<open>Saving\<close>

text \<open>
  Claim C2: saving with an empty name, empty instructions or an empty model shows the
  message about the required fields and does nothing else: no serialised configuration is
  stored and the dialog is not accepted.
\<close>

theorem save_with_missing_field_writes_nothing:
  assumes "nameEdit self = [] \<or> instructionsEdit self = [] \<or>
           currentText (modelComboBox self) = []"
  shows "assistant_config_json (save_configuration json_dumps self) =
           assistant_config_json self \<and>
         accepted (save_configuration json_dumps self) = accepted self \<and>
         save_configuration json_dumps self =
           self\<lparr>messages := messages self @
                   [Information ''Missing Fields''
                      ''Name, Instructions, and Model are required fields.'']\<rparr>"
  using assms by (auto simp: save_configuration_def)

theorem save_with_missing_field_writes_nothing_witness:
  "nameEdit example_dialog = [] \<and>
   assistant_config_json (save_configuration (\<lambda>d. doc_name d) example_dialog) = None \<and>
   \<not> accepted (save_configuration (\<lambda>d. doc_name d) example_dialog)"
proof -
  have h: "nameEdit example_dialog = []"
    by (simp add: example_dialog_defs)
  then have "nameEdit example_dialog = [] \<or> instructionsEdit example_dialog = [] \<or>
      currentText (modelComboBox example_dialog) = []" by simp
  from save_with_missing_field_writes_nothing [OF this, of "\<lambda>d. doc_name d"] h
  show ?thesis
    by (simp add: example_dialog_defs)
qed

section \<open>Selecting and deselecting a capability\<close>

text \<open>
  Claim C6 as stated fails on a selection that already holds an entry of the capability's
  name: deselecting removes every entry of that name, also the one that was there before.
\<close>

theorem select_deselect_counterexample:
  "selected_functions
     (handle_function_selection Unchecked example_function
        (handle_function_selection Checked example_function
           (example_dialog\<lparr>selected_functions := [example_spec]\<rparr>))) \<noteq>
   selected_functions (example_dialog\<lparr>selected_functions := [example_spec]\<rparr>)"
  by (simp add: handle_function_selection_def example_function_def example_spec_def)

text \<open>
  Claim C6, amended: for a selection that holds no entry of the capability's name, and a
  capability whose full specification carries its name, selecting and then deselecting
  the capability gives the dialog back as it was; deselecting removes by name, every
  entry whose name is the capability's.
\<close>

theorem select_then_deselect:
  assumes "spec_name (get_full_spec functionConfig) = fc_name functionConfig"
    and "\<forall>f \<in> set (selected_functions self). spec_name f \<noteq> fc_name functionConfig"
  shows "handle_function_selection Unchecked functionConfig
           (handle_function_selection Checked functionConfig self) = self \<and>
         selected_functions (handle_function_selection Unchecked functionConfig s) =
           filter (\<lambda>f. spec_name f \<noteq> fc_name functionConfig) (selected_functions s)"
  using assms by (auto simp: handle_function_selection_def filter_id_conv)

theorem select_then_deselect_witness:
  "spec_name (get_full_spec example_function) = fc_name example_function \<and>
   selected_functions example_dialog = [] \<and>
   handle_function_selection Unchecked example_function
     (handle_function_selection Checked example_function example_dialog) = example_dialog \<and>
   selected_functions
     (handle_function_selection Checked example_function example_dialog) = [example_spec]"
proof -
  have h1: "spec_name (get_full_spec example_function) = fc_name example_function"
    by (simp add: example_function_def example_spec_def)
  have h2: "\<forall>f \<in> set (selected_functions example_dialog).
      spec_name f \<noteq> fc_name example_function"
    by (simp add: example_dialog_defs)
  have "selected_functions
     (handle_function_selection Checked example_function example_dialog) = [example_spec]"
    by (simp add: handle_function_selection_def example_function_def example_dialog_defs)
  moreover have "selected_functions example_dialog = []"
    by (simp add: example_dialog_defs)
  ultimately show ?thesis
    using h1 select_then_deselect [OF h1 h2] by simp
qed

section \<open>What the function check boxes leave alone\<close>


lemma form_of_handle [simp]: "form_of (handle_function_selection st fc s) = form_of s"
  by (simp add: handle_function_selection_def form_of_def)

lemma form_of_setChecked [simp]: "form_of (checkBox_setChecked pos cb b s) = form_of s"
proof (cases "checkBox_checked s pos = b")
  case True
  then show ?thesis by (simp add: checkBox_setChecked_def)
next
  case False
  then have "form_of (checkBox_setChecked pos cb b s) =
      form_of (s\<lparr>checkBox_checked := (checkBox_checked s)(pos := b)\<rparr>)"
    by (simp add: checkBox_setChecked_def)
  then show ?thesis by (simp add: form_of_def)
qed

lemma form_of_uncheck_boxes [simp]: "form_of (uncheck_boxes ft i boxes s) = form_of s"
  by (induction boxes arbitrary: i s) simp_all

lemma form_of_uncheck_sections [simp]: "form_of (uncheck_sections bs s) = form_of s"
  by (induction bs arbitrary: s) auto

lemma form_of_check_boxes_named [simp]:
  "form_of (check_boxes_named n ft i boxes s) = form_of s"
  by (induction boxes arbitrary: i s) simp_all

lemma form_of_check_in_categories [simp]: "form_of (check_in_categories n cfgs s) = form_of s"
  by (induction cfgs arbitrary: s) auto

lemma form_of_pre_select_each [simp]: "form_of (state_of (pre_select_each fs s)) = form_of s"
  by (induction fs arbitrary: s) (auto split: option.splits)

lemma form_of_pre_select_functions [simp]:
  "form_of (state_of (pre_select_functions s)) = form_of s"
  by (simp add: pre_select_functions_def split: option.splits)

lemma form_of_fields:
  assumes "form_of t = form_of s"
  shows "assistant_type t = assistant_type s"
    and "function_config_manager t = function_config_manager s"
    and "knowledge_files_dict t = knowledge_files_dict s"
    and "code_interpreter t = code_interpreter s"
    and "knowledge_retrieval t = knowledge_retrieval s"
    and "checkBoxes t = checkBoxes s"
    and "assistant_id t = assistant_id s"
    and "default_output_folder_path t = default_output_folder_path s"
    and "is_mic_on t = is_mic_on s"
    and "currentHypothesis t = currentHypothesis s"
    and "is_create t = is_create s"
    and "assistant_config t = assistant_config s"
    and "assistant_config_json t = assistant_config_json s"
    and "aiClientComboBox t = aiClientComboBox s"
    and "assistantComboBox t = assistantComboBox s"
    and "nameEdit t = nameEdit s"
    and "nameEdit_enabled t = nameEdit_enabled s"
    and "instructionsEdit t = instructionsEdit s"
    and "modelComboBox t = modelComboBox s"
    and "createAsNewCheckBox_enabled t = createAsNewCheckBox_enabled s"
    and "outputFolderPathEdit t = outputFolderPathEdit s"
    and "knowledgeFileList t = knowledgeFileList s"
    and "knowledgeRetrievalCheckBox t = knowledgeRetrievalCheckBox s"
    and "codeInterpreterCheckBox t = codeInterpreterCheckBox s"
    and "newInstructionsEdit t = newInstructionsEdit s"
    and "messages t = messages s"
    and "accepted t = accepted s"
proof -
  have "assistant_type (form_of t) = assistant_type (form_of s)"
    "function_config_manager (form_of t) = function_config_manager (form_of s)"
    "knowledge_files_dict (form_of t) = knowledge_files_dict (form_of s)"
    "code_interpreter (form_of t) = code_interpreter (form_of s)"
    "knowledge_retrieval (form_of t) = knowledge_retrieval (form_of s)"
    "checkBoxes (form_of t) = checkBoxes (form_of s)"
    "assistant_id (form_of t) = assistant_id (form_of s)"
    "default_output_folder_path (form_of t) = default_output_folder_path (form_of s)"
    "is_mic_on (form_of t) = is_mic_on (form_of s)"
    "currentHypothesis (form_of t) = currentHypothesis (form_of s)"
    "is_create (form_of t) = is_create (form_of s)"
    "assistant_config (form_of t) = assistant_config (form_of s)"
    "assistant_config_json (form_of t) = assistant_config_json (form_of s)"
    "aiClientComboBox (form_of t) = aiClientComboBox (form_of s)"
    "assistantComboBox (form_of t) = assistantComboBox (form_of s)"
    "nameEdit (form_of t) = nameEdit (form_of s)"
    "nameEdit_enabled (form_of t) = nameEdit_enabled (form_of s)"
    "instructionsEdit (form_of t) = instructionsEdit (form_of s)"
    "modelComboBox (form_of t) = modelComboBox (form_of s)"
    "createAsNewCheckBox_enabled (form_of t) = createAsNewCheckBox_enabled (form_of s)"
    "outputFolderPathEdit (form_of t) = outputFolderPathEdit (form_of s)"
    "knowledgeFileList (form_of t) = knowledgeFileList (form_of s)"
    "knowledgeRetrievalCheckBox (form_of t) = knowledgeRetrievalCheckBox (form_of s)"
    "codeInterpreterCheckBox (form_of t) = codeInterpreterCheckBox (form_of s)"
    "newInstructionsEdit (form_of t) = newInstructionsEdit (form_of s)"
    "messages (form_of t) = messages (form_of s)"
    "accepted (form_of t) = accepted (form_of s)"
    by (simp_all only: assms)
  then show "assistant_type t = assistant_type s"
    and "function_config_manager t = function_config_manager s"
    and "knowledge_files_dict t = knowledge_files_dict s"
    and "code_interpreter t = code_interpreter s"
    and "knowledge_retrieval t = knowledge_retrieval s"
    and "checkBoxes t = checkBoxes s"
    and "assistant_id t = assistant_id s"
    and "default_output_folder_path t = default_output_folder_path s"
    and "is_mic_on t = is_mic_on s"
    and "currentHypothesis t = currentHypothesis s"
    and "is_create t = is_create s"
    and "assistant_config t = assistant_config s"
    and "assistant_config_json t = assistant_config_json s"
    and "aiClientComboBox t = aiClientComboBox s"
    and "assistantComboBox t = assistantComboBox s"
    and "nameEdit t = nameEdit s"
    and "nameEdit_enabled t = nameEdit_enabled s"
    and "instructionsEdit t = instructionsEdit s"
    and "modelComboBox t = modelComboBox s"
    and "createAsNewCheckBox_enabled t = createAsNewCheckBox_enabled s"
    and "outputFolderPathEdit t = outputFolderPathEdit s"
    and "knowledgeFileList t = knowledgeFileList s"
    and "knowledgeRetrievalCheckBox t = knowledgeRetrievalCheckBox s"
    and "codeInterpreterCheckBox t = codeInterpreterCheckBox s"
    and "newInstructionsEdit t = newInstructionsEdit s"
    and "messages t = messages s"
    and "accepted t = accepted s"
    by (simp_all add: form_of_def)
qed



lemmas handle_fields [simp] = form_of_fields [OF form_of_handle]
lemmas setChecked_fields [simp] = form_of_fields [OF form_of_setChecked]
lemmas uncheck_boxes_fields [simp] = form_of_fields [OF form_of_uncheck_boxes]
lemmas uncheck_sections_fields [simp] = form_of_fields [OF form_of_uncheck_sections]
lemmas check_boxes_named_fields [simp] = form_of_fields [OF form_of_check_boxes_named]
lemmas check_in_categories_fields [simp] = form_of_fields [OF form_of_check_in_categories]
lemmas pre_select_each_fields [simp] = form_of_fields [OF form_of_pre_select_each]
lemmas pre_select_functions_fields [simp] = form_of_fields [OF form_of_pre_select_functions]

section \<open>Knowledge files\<close>


lemma add_file_shown:
  "knowledge_files_shown self \<Longrightarrow> knowledge_files_shown (add_file filePath self)"
  by (auto simp: knowledge_files_shown_def add_file_def)

lemma add_file_present:
  "knowledge_files_dict self filePath \<noteq> None \<Longrightarrow>
     knowledge_files_dict (add_file filePath self) = knowledge_files_dict self \<and>
     knowledgeFileList (add_file filePath self) = knowledgeFileList self"
  by (auto simp: add_file_def)

lemma distinct_map_remove1:
  "distinct (map f xs) \<Longrightarrow> distinct (map f (remove1 x xs))"
  by (simp add: distinct_map inj_on_diff)

lemma set_map_remove1:
  assumes "distinct (map f xs)" and "x \<in> set xs"
  shows "f ` set (remove1 x xs) = f ` set xs - {f x}"
proof -
  from assms(1) have d: "distinct xs" and inj: "inj_on f (set xs)"
    by (simp_all add: distinct_map)
  from d have "set (remove1 x xs) = set xs - {x}"
    by (rule set_remove1_eq)
  moreover from inj assms(2) have "f ` (set xs - {x}) = f ` set xs - {f x}"
    by (auto simp: inj_on_def)
  ultimately show ?thesis by simp
qed

lemma remove_items_shown:
  "knowledge_files_shown self \<Longrightarrow> distinct items \<Longrightarrow> set items \<subseteq> set (knowledgeFileList self) \<Longrightarrow>
     \<exists>s. remove_items items self = Returned s \<and> knowledge_files_shown s"
proof (induction items arbitrary: self)
  case Nil
  then show ?case by simp
next
  case (Cons item rest)
  let ?s = "self\<lparr>knowledge_files_dict := (knowledge_files_dict self)(item_text item := None),
                knowledgeFileList := remove1 item (knowledgeFileList self)\<rparr>"
  from Cons.prems have shown: "distinct (map item_text (knowledgeFileList self))"
    and keys: "set (map item_text (knowledgeFileList self)) = dom (knowledge_files_dict self)"
    and item: "item \<in> set (knowledgeFileList self)"
    by (simp_all add: knowledge_files_shown_def)
  from item keys have present: "knowledge_files_dict self (item_text item) \<noteq> None"
    by (metis domIff image_eqI set_map)
  have "knowledge_files_shown ?s"
    using shown keys item
    by (simp add: knowledge_files_shown_def distinct_map_remove1 set_map_remove1)
  moreover from shown have "distinct (knowledgeFileList self)"
    by (simp add: distinct_map)
  with Cons.prems have "set rest \<subseteq> set (knowledgeFileList ?s)"
    by auto
  moreover from Cons.prems have "distinct rest" by simp
  ultimately obtain s where "remove_items rest ?s = Returned s" "knowledge_files_shown s"
    using Cons.IH by blast
  with present show ?case by simp
qed

lemma remove_file_shown:
  assumes "knowledge_files_shown self"
  shows "\<exists>s. remove_file self = Returned s \<and> knowledge_files_shown s"
proof -
  from assms have "distinct (knowledgeFileList self)"
    by (simp add: knowledge_files_shown_def distinct_map)
  then have "distinct (filter item_selected (knowledgeFileList self))" by simp
  moreover have "set (filter item_selected (knowledgeFileList self)) \<subseteq> set (knowledgeFileList self)"
    by auto
  ultimately have "\<exists>s. remove_items (filter item_selected (knowledgeFileList self)) self = Returned s \<and>
      knowledge_files_shown s"
    using assms by (rule remove_items_shown[rotated])
  with assms show ?thesis
    by (auto simp: remove_file_def Let_def)
qed


lemma reset_fields_knowledge:
  "knowledgeFileList (reset_fields self) = [] \<and> knowledge_files_dict (reset_fields self) = Map.empty"
  by (simp add: reset_fields_def Let_def codeInterpreterCheckBox_setChecked_def)

lemma reset_fields_shown: "knowledge_files_shown (reset_fields self)"
  by (simp add: knowledge_files_shown_def reset_fields_knowledge)


section \<open>Resetting and loading\<close>


lemma checked_handle [simp]:
  "checkBox_checked (handle_function_selection st fc s) = checkBox_checked s"
  by (simp add: handle_function_selection_def)

lemma checked_setChecked:
  "checkBox_checked (checkBox_setChecked pos cb b s) = (checkBox_checked s)(pos := b)"
proof (cases "checkBox_checked s pos = b")
  case True
  then have "(checkBox_checked s)(pos := b) = checkBox_checked s"
    by (simp add: fun_upd_idem)
  with True show ?thesis by (simp add: checkBox_setChecked_def)
next
  case False
  then show ?thesis by (simp add: checkBox_setChecked_def)
qed

lemma checked_uncheck_boxes:
  "checkBox_checked (uncheck_boxes ft i boxes s) p =
     (checkBox_checked s p \<and> \<not> (\<exists>k<length boxes. p = (ft, i + k)))"
proof (induction boxes arbitrary: i s)
  case Nil
  show ?case by simp
next
  case (Cons cb boxes)
  show ?case
    by (simp add: Cons.IH checked_setChecked Ex_less_Suc2)
qed

lemma checked_uncheck_sections:
  "checkBox_checked (uncheck_sections bs s) p =
     (checkBox_checked s p \<and>
      \<not> (\<exists>ft boxes k. (ft, boxes) \<in> set bs \<and> k < length boxes \<and> p = (ft, k)))"
proof (induction bs arbitrary: s)
  case Nil
  show ?case by simp
next
  case (Cons b bs)
  obtain ft boxes where b: "b = (ft, boxes)" by (cases b)
  have "(\<exists>ft' boxes' k. (ft', boxes') \<in> set (b # bs) \<and> k < length boxes' \<and> p = (ft', k)) \<longleftrightarrow>
      (\<exists>k<length boxes. p = (ft, 0 + k)) \<or>
      (\<exists>ft' boxes' k. (ft', boxes') \<in> set bs \<and> k < length boxes' \<and> p = (ft', k))"
    unfolding b by fastforce
  then show ?case
    unfolding b uncheck_sections.simps Cons.IH checked_uncheck_boxes
    by blast
qed

lemma uncheck_boxes_id:
  "\<forall>k<length boxes. \<not> checkBox_checked s (ft, i + k) \<Longrightarrow> uncheck_boxes ft i boxes s = s"
proof (induction boxes arbitrary: i)
  case Nil
  show ?case by simp
next
  case (Cons cb boxes)
  from Cons.prems have here: "\<not> checkBox_checked s (ft, i)"
    and rest: "\<forall>k<length boxes. \<not> checkBox_checked s (ft, Suc i + k)"
    by (simp_all add: All_less_Suc2)
  from rest have "uncheck_boxes ft (Suc i) boxes s = s"
    by (rule Cons.IH)
  with here show ?case
    by (simp add: checkBox_setChecked_def)
qed

lemma uncheck_sections_id:
  "\<forall>ft boxes k. (ft, boxes) \<in> set bs \<and> k < length boxes \<longrightarrow> \<not> checkBox_checked s (ft, k) \<Longrightarrow>
     uncheck_sections bs s = s"
proof (induction bs)
  case Nil
  show ?case by simp
next
  case (Cons b bs)
  obtain ft boxes where b: "b = (ft, boxes)" by (cases b)
  from Cons.prems have "\<forall>k<length boxes. \<not> checkBox_checked s (ft, 0 + k)"
    unfolding b by (simp del: split_paired_All) blast
  then have "uncheck_boxes ft 0 boxes s = s"
    by (rule uncheck_boxes_id)
  moreover from Cons.prems have "uncheck_sections bs s = s"
    by (intro Cons.IH) (simp del: split_paired_All, blast)
  ultimately show ?case by (simp add: b)
qed

lemma boxes_unchecked_iff:
  "boxes_unchecked s \<longleftrightarrow>
     (\<forall>ft boxes k. (ft, boxes) \<in> set (checkBoxes s) \<and> k < length boxes \<longrightarrow>
        \<not> checkBox_checked s (ft, k))"
  unfolding boxes_unchecked_def list_all_iff by fastforce



lemma reset_fields_result:
  "selected_functions (reset_fields self) = []"
  "\<not> knowledge_retrieval (reset_fields self)"
  "\<not> code_interpreter (reset_fields self)"
  "nameEdit (reset_fields self) = []"
  "instructionsEdit (reset_fields self) = []"
  "outputFolderPathEdit (reset_fields self) = []"
  "assistant_config (reset_fields self) = None"
  "currentHypothesis (reset_fields self) = currentHypothesis self"
  "newInstructionsEdit (reset_fields self) = newInstructionsEdit self"
  "checkBoxes (reset_fields self) = checkBoxes self"
  "assistant_type (reset_fields self) = assistant_type self"
  "modelComboBox (reset_fields self) = setCurrentIndex 0 (modelComboBox self)"
  "assistant_type self = ''assistant'' \<Longrightarrow> \<not> codeInterpreterCheckBox (reset_fields self)"
  by (simp_all add: reset_fields_def Let_def codeInterpreterCheckBox_setChecked_def)

lemma reset_fields_checked:
  "checkBox_checked (reset_fields self) p =
     (checkBox_checked self p \<and>
      \<not> (\<exists>ft boxes k. (ft, boxes) \<in> set (checkBoxes self) \<and> k < length boxes \<and> p = (ft, k)))"
  by (simp add: reset_fields_def Let_def codeInterpreterCheckBox_setChecked_def
      checked_uncheck_sections)

lemma reset_fields_unchecked: "boxes_unchecked (reset_fields self)"
  unfolding boxes_unchecked_iff reset_fields_checked reset_fields_result by blast

lemma setCurrentIndex_idem: "setCurrentIndex 0 (setCurrentIndex 0 w) = setCurrentIndex 0 w"
  by (simp add: setCurrentIndex_def)

lemma reset_fields_fixed:
  assumes "nameEdit r = []" and "instructionsEdit r = []"
    and "setCurrentIndex 0 (modelComboBox r) = modelComboBox r"
    and "knowledge_files_dict r = Map.empty" and "knowledgeFileList r = []"
    and "\<forall>ft boxes k. (ft, boxes) \<in> set (checkBoxes r) \<and> k < length boxes \<longrightarrow>
           \<not> checkBox_checked r (ft, k)"
    and "selected_functions r = []" and "\<not> knowledge_retrieval r" and "\<not> code_interpreter r"
    and "assistant_type r = ''assistant'' \<longrightarrow> \<not> codeInterpreterCheckBox r"
    and "outputFolderPathEdit r = []" and "assistant_config r = None"
  shows "reset_fields r = r"
proof -
  let ?s1 = "r\<lparr>nameEdit := [], instructionsEdit := [],
                modelComboBox := setCurrentIndex 0 (modelComboBox r),
                knowledge_files_dict := Map.empty, knowledgeFileList := []\<rparr>"
  have s1: "?s1 = r"
    using assms(1-5) by (cases r) simp
  have "uncheck_sections (checkBoxes r) r = r"
    using assms(6) by (rule uncheck_sections_id)
  then have s2: "uncheck_sections (checkBoxes ?s1) ?s1 = r"
    unfolding s1 .
  have s3: "r\<lparr>selected_functions := [], knowledge_retrieval := False, code_interpreter := False\<rparr> = r"
    using assms(7-9) by (cases r) simp
  have s4: "(if assistant_type r = ''assistant''
             then codeInterpreterCheckBox_setChecked False r else r) = r"
    using assms(10) by (simp add: codeInterpreterCheckBox_setChecked_def)
  have s5: "r\<lparr>outputFolderPathEdit := [], assistant_config := None\<rparr> = r"
    using assms(11,12) by (cases r) simp
  show ?thesis
    unfolding reset_fields_def Let_def s2 s3 s4 s5 ..
qed

lemma reset_fields_idem: "reset_fields (reset_fields self) = reset_fields self"
proof (rule reset_fields_fixed)
  show "\<forall>ft boxes k. (ft, boxes) \<in> set (checkBoxes (reset_fields self)) \<and> k < length boxes \<longrightarrow>
           \<not> checkBox_checked (reset_fields self) (ft, k)"
    using reset_fields_unchecked [of self] by (simp only: boxes_unchecked_iff)
qed (simp_all add: reset_fields_result reset_fields_knowledge setCurrentIndex_idem)

lemma selection_changed_after_reset:
  "assistant_selection_changed gc (reset_fields self) = assistant_selection_changed gc self"
  by (simp add: assistant_selection_changed_def reset_fields_idem)



lemma pre_load_None:
  "gc name = None \<Longrightarrow>
     pre_load_assistant_config gc name s = Returned (s\<lparr>assistant_config := None\<rparr>)"
  by (simp add: pre_load_assistant_config_def)

lemma pre_load_Some:
  "gc name = Some config \<Longrightarrow>
     pre_load_assistant_config gc name s =
       and_then (pre_select_functions (pre_load_first config (s\<lparr>assistant_config := Some config\<rparr>)))
         (\<lambda>s4. Returned (pre_load_rest config s4))"
  by (simp add: pre_load_assistant_config_def pre_load_first_def pre_load_rest_def Let_def)

lemma pre_fill_dictation [simp]:
  "currentHypothesis (pre_fill_knowledge_files kf s) = currentHypothesis s"
  "newInstructionsEdit (pre_fill_knowledge_files kf s) = newInstructionsEdit s"
  by (induction kf arbitrary: s) auto

lemma pre_load_first_dictation [simp]:
  "currentHypothesis (pre_load_first config s) = currentHypothesis s"
  "newInstructionsEdit (pre_load_first config s) = newInstructionsEdit s"
  by (simp_all add: pre_load_first_def Let_def)

lemma pre_load_rest_dictation [simp]:
  "currentHypothesis (pre_load_rest config s) = currentHypothesis s"
  "newInstructionsEdit (pre_load_rest config s) = newInstructionsEdit s"
  by (simp_all add: pre_load_rest_def Let_def
      knowledgeRetrievalCheckBox_setChecked_def codeInterpreterCheckBox_setChecked_def)

lemma pre_load_dictation:
  "currentHypothesis (state_of (pre_load_assistant_config gc name s)) = currentHypothesis s"
  "newInstructionsEdit (state_of (pre_load_assistant_config gc name s)) = newInstructionsEdit s"
proof -
  have "currentHypothesis (state_of (pre_load_assistant_config gc name s)) = currentHypothesis s \<and>
    newInstructionsEdit (state_of (pre_load_assistant_config gc name s)) = newInstructionsEdit s"
  proof (cases "gc name")
    case None
    then show ?thesis by (simp add: pre_load_None)
  next
    case (Some config)
    let ?s3 = "pre_load_first config (s\<lparr>assistant_config := Some config\<rparr>)"
    have sel: "currentHypothesis (state_of (pre_select_functions ?s3)) = currentHypothesis s"
      "newInstructionsEdit (state_of (pre_select_functions ?s3)) = newInstructionsEdit s"
      by simp_all
    show ?thesis
    proof (cases "pre_select_functions ?s3")
      case (Returned s4)
      with sel show ?thesis by (simp add: pre_load_Some [of gc name config, OF Some])
    next
      case (Raised e s')
      with sel show ?thesis by (simp add: pre_load_Some [of gc name config, OF Some])
    qed
  qed
  then show "currentHypothesis (state_of (pre_load_assistant_config gc name s)) = currentHypothesis s"
    and "newInstructionsEdit (state_of (pre_load_assistant_config gc name s)) = newInstructionsEdit s"
    by simp_all
qed

lemma state_of_and_then_Returned:
  "state_of (and_then r (\<lambda>s. Returned (f s))) = (case r of Returned s \<Rightarrow> f s | Raised e s \<Rightarrow> s)"
  by (cases r) simp_all

lemma selection_changed_dictation:
  "currentHypothesis (state_of (assistant_selection_changed gc self)) = currentHypothesis self \<and>
   newInstructionsEdit (state_of (assistant_selection_changed gc self)) = newInstructionsEdit self"
proof -
  let ?r = "pre_load_assistant_config gc (currentText (assistantComboBox (reset_fields self)))
      (reset_fields self\<lparr>is_create := False\<rparr>)"
  have "currentHypothesis (state_of ?r) = currentHypothesis self"
    "newInstructionsEdit (state_of ?r) = newInstructionsEdit self"
    by (simp_all add: pre_load_dictation reset_fields_result)
  then have "currentHypothesis (state_of (and_then ?r
      (\<lambda>s2. Returned (s2\<lparr>createAsNewCheckBox_enabled := True, nameEdit_enabled := False\<rparr>)))) =
      currentHypothesis self \<and>
    newInstructionsEdit (state_of (and_then ?r
      (\<lambda>s2. Returned (s2\<lparr>createAsNewCheckBox_enabled := True, nameEdit_enabled := False\<rparr>)))) =
      newInstructionsEdit self"
    by (cases ?r) simp_all
  then show ?thesis
    by (simp add: assistant_selection_changed_def Let_def reset_fields_result)
qed



lemma pre_fill_list:
  "map item_text (knowledgeFileList (pre_fill_knowledge_files kf s)) =
     map item_text (knowledgeFileList s) @ map fst kf"
  by (induction kf arbitrary: s) auto

lemma pre_fill_dict:
  "dom (knowledge_files_dict (pre_fill_knowledge_files kf s)) =
     dom (knowledge_files_dict s) \<union> fst ` set kf"
proof (induction kf arbitrary: s)
  case Nil
  show ?case by simp
next
  case (Cons x kf)
  obtain file_path file_id where x: "x = (file_path, file_id)" by (cases x)
  show ?case
    unfolding x pre_fill_knowledge_files.simps Cons.IH by simp
qed

lemma pre_load_first_shown:
  assumes "knowledgeFileList s = []" and "knowledge_files_dict s = Map.empty"
  shows "knowledge_files_shown (pre_load_first config s)"
  using assms
  by (simp add: knowledge_files_shown_def pre_load_first_def Let_def pre_fill_list pre_fill_dict)

lemma pre_load_rest_knowledge [simp]:
  "knowledgeFileList (pre_load_rest config s) = knowledgeFileList s"
  "knowledge_files_dict (pre_load_rest config s) = knowledge_files_dict s"
  by (simp_all add: pre_load_rest_def Let_def
      knowledgeRetrievalCheckBox_setChecked_def codeInterpreterCheckBox_setChecked_def)

lemma pre_load_shown:
  assumes empty: "knowledgeFileList s = []" "knowledge_files_dict s = Map.empty"
  shows "knowledge_files_shown (state_of (pre_load_assistant_config gc name s))"
proof (cases "gc name")
  case None
  with empty show ?thesis
    by (simp add: pre_load_None knowledge_files_shown_def)
next
  case (Some config)
  let ?s3 = "pre_load_first config (s\<lparr>assistant_config := Some config\<rparr>)"
  from empty have "knowledge_files_shown ?s3"
    by (intro pre_load_first_shown) simp_all
  then have sel: "knowledge_files_shown (state_of (pre_select_functions ?s3))"
    by (simp add: knowledge_files_shown_def)
  show ?thesis
  proof (cases "pre_select_functions ?s3")
    case (Returned s4)
    with sel show ?thesis
      by (simp add: pre_load_Some [of gc name config, OF Some] knowledge_files_shown_def)
  next
    case (Raised e s')
    with sel show ?thesis
      by (simp add: pre_load_Some [of gc name config, OF Some])
  qed
qed

lemma selection_changed_shown:
  "knowledge_files_shown (state_of (assistant_selection_changed gc self))"
proof -
  let ?r = "pre_load_assistant_config gc (currentText (assistantComboBox (reset_fields self)))
      (reset_fields self\<lparr>is_create := False\<rparr>)"
  have "knowledge_files_shown (state_of ?r)"
    by (rule pre_load_shown) (simp_all add: reset_fields_knowledge)
  then have "knowledge_files_shown (state_of (and_then ?r
      (\<lambda>s2. Returned (s2\<lparr>createAsNewCheckBox_enabled := True, nameEdit_enabled := False\<rparr>))))"
    by (cases ?r) (simp_all add: knowledge_files_shown_def)
  then show ?thesis
    by (simp add: assistant_selection_changed_def Let_def knowledge_files_shown_def
        reset_fields_knowledge)
qed

text \<open>
  Claim C10: adding a file, removing the selected files, resetting the form and loading a
  stored profile (the slot \<^verbatim>\<open>assistant_selection_changed\<close>, which resets and then
  pre-loads) keep the list of knowledge files and the keys of the dictionary the same;
  adding a path that the dictionary holds changes neither of them.
\<close>

theorem knowledge_file_list_shows_the_keys:
  "(knowledge_files_shown self \<longrightarrow> knowledge_files_shown (add_file filePath self)) \<and>
   (knowledge_files_dict self filePath \<noteq> None \<longrightarrow>
      knowledge_files_dict (add_file filePath self) = knowledge_files_dict self \<and>
      knowledgeFileList (add_file filePath self) = knowledgeFileList self) \<and>
   (knowledge_files_shown self \<longrightarrow>
      (\<exists>s. remove_file self = Returned s \<and> knowledge_files_shown s)) \<and>
   knowledge_files_shown (reset_fields self) \<and>
   knowledge_files_shown (state_of (assistant_selection_changed get_config self))"
  by (simp add: add_file_shown add_file_present remove_file_shown reset_fields_shown
      selection_changed_shown)

theorem knowledge_file_list_shows_the_keys_witness:
  "knowledge_files_shown one_file_dialog \<and>
   knowledge_files_dict one_file_dialog ''notes.txt'' \<noteq> None \<and>
   knowledge_files_shown (add_file ''paper.pdf'' one_file_dialog) \<and>
   knowledgeFileList (add_file ''notes.txt'' one_file_dialog) =
     knowledgeFileList one_file_dialog \<and>
   knowledge_files_dict (add_file ''notes.txt'' one_file_dialog) =
     knowledge_files_dict one_file_dialog \<and>
   (\<exists>s. remove_file one_file_dialog = Returned s \<and> knowledge_files_shown s) \<and>
   knowledge_files_shown (reset_fields one_file_dialog) \<and>
   knowledge_files_shown (state_of (assistant_selection_changed example_store one_file_dialog))"
proof -
  have shown: "knowledge_files_shown one_file_dialog"
    by (simp add: knowledge_files_shown_def one_file_dialog_def)
  have held: "knowledge_files_dict one_file_dialog ''notes.txt'' \<noteq> None"
    by (simp add: one_file_dialog_def)
  show ?thesis
    using shown held
      knowledge_file_list_shows_the_keys [of one_file_dialog "''paper.pdf''" example_store]
      knowledge_file_list_shows_the_keys [of one_file_dialog "''notes.txt''" example_store]
    by simp
qed

text \<open>
  Claim C4 as stated fails for the dictation: after ``helper'' has been loaded into a
  dialog with the pending hypothesis ``ab'', the name field shows the loaded profile and
  the hypothesis is still pending.
\<close>

theorem load_keeps_pending_hypothesis_counterexample:
  "nameEdit (state_of (assistant_selection_changed example_store dictating_dialog)) = ''helper'' \<and>
   currentHypothesis (state_of (assistant_selection_changed example_store dictating_dialog)) =
     ''ab''"
proof -
  have "reset_fields dictating_dialog =
      dictating_dialog\<lparr>outputFolderPathEdit := [], modelComboBox :=
        \<lparr>combo_items = [], combo_index = -1, combo_text = []\<rparr>\<rparr>"
    by (simp add: dictating_dialog_def example_dialog_defs reset_fields_def Let_def
        setCurrentIndex_def codeInterpreterCheckBox_setChecked_def)
  then show ?thesis
    by (simp add: assistant_selection_changed_def Let_def currentText_def
        dictating_dialog_def example_dialog_defs example_store_def example_profile_def
        pre_load_assistant_config_def pre_select_functions_def findText_def addItem_def
        setCurrentIndex_def count_def DAList.empty.rep_eq
        knowledgeRetrievalCheckBox_setChecked_def codeInterpreterCheckBox_setChecked_def)
qed

text \<open>
  Claim C4, amended: loading a profile first resets the form, and the form only. After
  \<^verbatim>\<open>reset_fields\<close> the selection sequence is empty, every function check box is
  unchecked, there are no knowledge files, the name, the instructions and the output
  folder are empty, the two tool settings are off and no profile is held; the slot that
  loads gives the same result from the dialog and from the reset dialog, so nothing of
  these carries over. The dictation is no part of the form: the instructions editor and
  its pending hypothesis are the same before and after loading.
\<close>

theorem load_resets_the_form_only:
  "selected_functions (reset_fields self) = [] \<and>
   boxes_unchecked (reset_fields self) \<and>
   knowledge_files_dict (reset_fields self) = Map.empty \<and>
   knowledgeFileList (reset_fields self) = [] \<and>
   nameEdit (reset_fields self) = [] \<and>
   instructionsEdit (reset_fields self) = [] \<and>
   outputFolderPathEdit (reset_fields self) = [] \<and>
   \<not> knowledge_retrieval (reset_fields self) \<and>
   \<not> code_interpreter (reset_fields self) \<and>
   assistant_config (reset_fields self) = None \<and>
   assistant_selection_changed get_config self =
     assistant_selection_changed get_config (reset_fields self) \<and>
   currentHypothesis (state_of (assistant_selection_changed get_config self)) =
     currentHypothesis self \<and>
   newInstructionsEdit (state_of (assistant_selection_changed get_config self)) =
     newInstructionsEdit self"
  by (simp add: reset_fields_result reset_fields_unchecked reset_fields_knowledge
      selection_changed_after_reset selection_changed_dictation)

theorem load_resets_the_form_only_witness:
  "selected_functions (reset_fields dictating_dialog) = [] \<and>
   boxes_unchecked (reset_fields dictating_dialog) \<and>
   currentHypothesis (state_of (assistant_selection_changed example_store dictating_dialog)) =
     ''ab'' \<and>
   newInstructionsEdit (state_of (assistant_selection_changed example_store dictating_dialog)) =
     \<lparr>plain_text = ''ab'', cursor = 2\<rparr>"
proof -
  have dictated: "currentHypothesis dictating_dialog = ''ab''"
    "newInstructionsEdit dictating_dialog = \<lparr>plain_text = ''ab'', cursor = 2\<rparr>"
    by (simp_all add: dictating_dialog_def)
  from load_resets_the_form_only [of dictating_dialog example_store]
  have "selected_functions (reset_fields dictating_dialog) = [] \<and>
    boxes_unchecked (reset_fields dictating_dialog) \<and>
    currentHypothesis (state_of (assistant_selection_changed example_store dictating_dialog)) =
      currentHypothesis dictating_dialog \<and>
    newInstructionsEdit (state_of (assistant_selection_changed example_store dictating_dialog)) =
      newInstructionsEdit dictating_dialog"
    by blast
  then show ?thesis
    by (simp only: dictated)
qed


section \<open>Reconciling a stored selection\<close>






























section \<open>Export with a missing source file\<close>












end
